theory Spec2Isabelle
  imports Main "HOL-Library.Word" "HOL-Library.Sublist"
begin

section \<open>Python values\<close>

text \<open>
  The handler \<^verbatim>\<open>lambda_handler(event, context)\<close> of \<^verbatim>\<open>src/lambda/lambda.py\<close> works on
  dynamically typed values: the event handed over by the Lambda runtime and whatever
  \<^verbatim>\<open>json.loads\<close> returns. Both are JSON-shaped, so a value is \<^verbatim>\<open>None\<close>, a \<^verbatim>\<open>bool\<close>,
  an \<^verbatim>\<open>int\<close> (unbounded), a \<^verbatim>\<open>float\<close> (the 64 bits of its IEEE double), a \<^verbatim>\<open>str\<close>,
  a \<^verbatim>\<open>list\<close> or a \<^verbatim>\<open>dict\<close> with \<^verbatim>\<open>str\<close> keys. A \<^verbatim>\<open>dict\<close> is the list of its items
  in insertion order; looking a key up is \<open>map_of\<close>. The keys of a Python dict are
  distinct; no theorem below needs that, and on a list that repeats a key \<open>map_of\<close>
  reads the first item. A \<^verbatim>\<open>str\<close> is the list of the bytes of its UTF-8 encoding, so
  \<^verbatim>\<open>.encode("utf-8")\<close> is the identity on it, and a substring test on the bytes is the
  substring test on the characters.
\<close>

datatype pyval =
    PNone
  | PBool bool
  | PInt int
  | PFloat "64 word"
  | PStr string
  | PList "pyval list"
  | PDict "(string \<times> pyval) list"

text \<open>
  The exceptions that can travel through the handler. All of them are subclasses of
  \<^verbatim>\<open>Exception\<close>, so \<^verbatim>\<open>except Exception\<close> catches each; \<^verbatim>\<open>HTTPError\<close> carries its
  \<^verbatim>\<open>code\<close> and \<^verbatim>\<open>reason\<close>, \<^verbatim>\<open>URLError\<close> its \<^verbatim>\<open>reason\<close>. \<open>OtherError\<close> is any other
  exception class, by name (\<^verbatim>\<open>TimeoutError\<close>, \<^verbatim>\<open>RemoteDisconnected\<close>, ...).
\<close>

datatype exn =
    TypeError
  | KeyError
  | ValueError
  | JSONDecodeError
  | HTTPError int string
  | URLError string
  | OtherError string

text \<open>Truth value testing, as \<^verbatim>\<open>if x\<close>, \<^verbatim>\<open>not x\<close>, \<^verbatim>\<open>x and y\<close> and \<^verbatim>\<open>bool(x)\<close> do it.
  A float is false when it is \<^verbatim>\<open>0.0\<close> or \<^verbatim>\<open>-0.0\<close>.\<close>

fun truthy :: "pyval \<Rightarrow> bool" where
  "truthy PNone = False"
| "truthy (PBool b) = b"
| "truthy (PInt i) = (i \<noteq> 0)"
| "truthy (PFloat w) = (w \<noteq> 0 \<and> w \<noteq> 0x8000000000000000)"
| "truthy (PStr s) = (s \<noteq> [])"
| "truthy (PList xs) = (xs \<noteq> [])"
| "truthy (PDict d) = (d \<noteq> [])"

text \<open>\<^verbatim>\<open>os.getenv\<close> returns \<^verbatim>\<open>None\<close> or a \<^verbatim>\<open>str\<close>; its truth value.\<close>

fun env_truthy :: "string option \<Rightarrow> bool" where
  "env_truthy None = False"
| "env_truthy (Some s) = (s \<noteq> [])"

text \<open>\<^verbatim>\<open>sub in s\<close> for two \<^verbatim>\<open>str\<close>: \<^verbatim>\<open>sub\<close> occurs in \<^verbatim>\<open>s\<close> as a substring.\<close>

fun str_contains :: "string \<Rightarrow> string \<Rightarrow> bool" where
  "str_contains [] sub = (sub = [])"
| "str_contains (c # cs) sub = (prefix sub (c # cs) \<or> str_contains cs sub)"

text \<open>
  \<^verbatim>\<open>key in x\<close> with a \<^verbatim>\<open>str\<close> on the left: a key test on a \<^verbatim>\<open>dict\<close>, an element test
  on a \<^verbatim>\<open>list\<close> (only a \<^verbatim>\<open>str\<close> element compares equal to a \<^verbatim>\<open>str\<close>), a substring test
  on a \<^verbatim>\<open>str\<close>; on \<^verbatim>\<open>None\<close>, a \<^verbatim>\<open>bool\<close>, an \<^verbatim>\<open>int\<close> or a \<^verbatim>\<open>float\<close> it raises
  \<^verbatim>\<open>TypeError\<close> (argument is not iterable).
\<close>

fun py_in :: "string \<Rightarrow> pyval \<Rightarrow> exn + bool" where
  "py_in k (PDict d) = Inr (map_of d k \<noteq> None)"
| "py_in k (PList xs) = Inr (PStr k \<in> set xs)"
| "py_in k (PStr s) = Inr (str_contains s k)"
| "py_in k PNone = Inl TypeError"
| "py_in k (PBool b) = Inl TypeError"
| "py_in k (PInt i) = Inl TypeError"
| "py_in k (PFloat w) = Inl TypeError"

text \<open>
  \<^verbatim>\<open>x[key]\<close> with a \<^verbatim>\<open>str\<close> key: the value on a \<^verbatim>\<open>dict\<close> (\<^verbatim>\<open>KeyError\<close> when the key is
  missing); \<^verbatim>\<open>TypeError\<close> on everything else (list and string indices must be
  integers, the other types are not subscriptable).
\<close>

fun py_getitem :: "pyval \<Rightarrow> string \<Rightarrow> exn + pyval" where
  "py_getitem (PDict d) k = (case map_of d k of None \<Rightarrow> Inl KeyError | Some v \<Rightarrow> Inr v)"
| "py_getitem (PList xs) k = Inl TypeError"
| "py_getitem (PStr s) k = Inl TypeError"
| "py_getitem PNone k = Inl TypeError"
| "py_getitem (PBool b) k = Inl TypeError"
| "py_getitem (PInt i) k = Inl TypeError"
| "py_getitem (PFloat w) k = Inl TypeError"

text \<open>\<^verbatim>\<open>isinstance(x, dict)\<close>.\<close>

fun is_dict :: "pyval \<Rightarrow> bool" where
  "is_dict (PDict d) = True"
| "is_dict _ = False"

text \<open>\<^verbatim>\<open>d.get(key)\<close> on the items of a \<^verbatim>\<open>dict\<close>: the value, \<^verbatim>\<open>None\<close> when the key is missing.\<close>

definition dict_get :: "(string \<times> pyval) list \<Rightarrow> string \<Rightarrow> pyval" where
  "dict_get d k = (case map_of d k of None \<Rightarrow> PNone | Some v \<Rightarrow> v)"

section \<open>The world outside the handler\<close>

text \<open>
  What the handler builds with \<^verbatim>\<open>Request(slack_url, data=data, headers=...)\<close>: the
  arguments it passes. A request with \<^verbatim>\<open>data\<close> is sent with the method POST.
\<close>

record request =
  full_url :: string
  data :: string
  headers :: "(string \<times> string) list"

text \<open>
  The handler calls into the process environment, the \<^verbatim>\<open>json\<close> module, \<^verbatim>\<open>str\<close>
  formatting and \<^verbatim>\<open>urllib.request\<close>. None of that is code of the repository, so it is a
  parameter of the model, and every theorem holds for whatever these do:
  \<^item> \<open>environ\<close>: the environment variables, read by \<^verbatim>\<open>os.getenv\<close>;
  \<^item> \<open>json_loads\<close>: \<^verbatim>\<open>json.loads\<close>, which returns a value or raises;
  \<^item> \<open>json_dumps\<close>: \<^verbatim>\<open>json.dumps\<close>, taken to return: the handler only serialises dicts
    it built from strings, a bool and a value that \<^verbatim>\<open>json.loads\<close> returned;
  \<^item> \<open>str_of\<close>: \<^verbatim>\<open>str(x)\<close>, as an f-string formats a value that is not a \<^verbatim>\<open>str\<close>;
  \<^item> \<open>Request_raises\<close>: the exception the constructor \<^verbatim>\<open>Request(url, ...)\<close> raises for
    this URL, if any;
  \<^item> \<open>urlopen\<close>: the outcome of sending the request: the \<^verbatim>\<open>status\<close> of the response,
    or the exception raised.
\<close>

record world =
  environ :: "string \<Rightarrow> string option"
  json_loads :: "pyval \<Rightarrow> exn + pyval"
  json_dumps :: "pyval \<Rightarrow> string"
  str_of :: "pyval \<Rightarrow> string"
  Request_raises :: "string \<Rightarrow> exn option"
  urlopen :: "request \<Rightarrow> exn + int"

text \<open>
  The lines the handler prints, each with the values formatted into it:
  \<^item> \<open>SlackUrlNotSet\<close>: \<^verbatim>\<open>[EsepWebhook] SLACK_URL not set in environment variables.\<close>
  \<^item> \<open>MessagePosted status\<close>: \<^verbatim>\<open>[EsepWebhook] Message posted to Slack. Status: {response.status}\<close>
  \<^item> \<open>SlackHTTPError code reason\<close>: \<^verbatim>\<open>[EsepWebhook] Slack HTTPError {e.code}: {e.reason}\<close>
  \<^item> \<open>SlackURLError reason\<close>: \<^verbatim>\<open>[EsepWebhook] Slack URLError: {e.reason}\<close>
  \<^item> \<open>IssueUrlButNoSlackUrl\<close>: \<^verbatim>\<open>[EsepWebhook] IssueURL detected but SLACK_URL not configured.\<close>
  \<^item> \<open>NoIssueUrl\<close>: \<^verbatim>\<open>[EsepWebhook] No issueURL found in payload.\<close>
\<close>

datatype log_line =
    SlackUrlNotSet
  | MessagePosted int
  | SlackHTTPError int string
  | SlackURLError string
  | IssueUrlButNoSlackUrl
  | NoIssueUrl

text \<open>The dict the handler returns: \<^verbatim>\<open>{"statusCode": ..., "body": ...}\<close>.\<close>

record response =
  statusCode :: int
  body :: string

text \<open>
  One invocation: the lines printed, the requests passed to \<^verbatim>\<open>urlopen\<close>, and the
  returned dict or the exception that left the handler.
\<close>

record outcome =
  logs :: "log_line list"
  posts :: "request list"
  result :: "exn + response"

section \<open>The handler\<close>

text \<open>Lines 50 to 53: the body is \<^verbatim>\<open>event["body"]\<close> when the event is a dict with that
  key, the event otherwise.\<close>

definition resolve_body :: "pyval \<Rightarrow> pyval" where
  "resolve_body event =
     (case event of
        PDict d \<Rightarrow> (case map_of d ''body'' of Some b \<Rightarrow> b | None \<Rightarrow> event)
      | _ \<Rightarrow> event)"

text \<open>Lines 58 to 62: \<^verbatim>\<open>json.loads(body)\<close>, and \<^verbatim>\<open>{"raw": body}\<close> on any exception.\<close>

definition parse_payload :: "world \<Rightarrow> pyval \<Rightarrow> pyval" where
  "parse_payload w b =
     (case json_loads w b of Inr payload \<Rightarrow> payload | Inl e \<Rightarrow> PDict [(''raw'', b)])"

text \<open>
  Lines 67 to 70. \<^verbatim>\<open>"issue" in payload and isinstance(payload["issue"], dict)\<close> evaluates
  the membership test first and the subscript only when the test is true; either may
  raise, and nothing here catches it.
\<close>

definition extract_issue_url :: "pyval \<Rightarrow> exn + pyval" where
  "extract_issue_url payload =
     (case py_in ''issue'' payload of
        Inl e \<Rightarrow> Inl e
      | Inr False \<Rightarrow> Inr PNone
      | Inr True \<Rightarrow>
          (case py_getitem payload ''issue'' of
             Inl e \<Rightarrow> Inl e
           | Inr (PDict issue) \<Rightarrow> Inr (dict_get issue ''html_url'')
           | Inr _ \<Rightarrow> Inr PNone))"

text \<open>The f-string \<^verbatim>\<open>f":tada: New GitHub Issue created: {issue_url}"\<close>: a \<^verbatim>\<open>str\<close> is
  inserted as it is, any other value as \<^verbatim>\<open>str\<close> formats it.\<close>

definition message_text :: "world \<Rightarrow> pyval \<Rightarrow> string" where
  "message_text w issue_url =
     '':tada: New GitHub Issue created: '' @
       (case issue_url of PStr s \<Rightarrow> s | _ \<Rightarrow> str_of w issue_url)"

text \<open>
  Lines 78 to 84: the message, its serialisation and the arguments of
  \<^verbatim>\<open>Request(slack_url, data=data, headers={"Content-Type": "application/json"})\<close>.
\<close>

definition build_request :: "world \<Rightarrow> pyval \<Rightarrow> string \<Rightarrow> request" where
  "build_request w issue_url slack_url =
     (let message = PDict [(''text'', PStr (message_text w issue_url))];
          dat = json_dumps w message
      in \<lparr>full_url = slack_url, data = dat,
          headers = [(''Content-Type'', ''application/json'')]\<rparr>)"

text \<open>
  Lines 77 to 93, the branch taken when both the issue URL and the Slack URL are true.
  The request is constructed outside the \<^verbatim>\<open>try\<close>, so an exception of the constructor
  leaves the handler before anything is sent. The request is then sent, and
  \<^verbatim>\<open>HTTPError\<close> and \<^verbatim>\<open>URLError\<close> are handled; any other exception of \<^verbatim>\<open>urlopen\<close> leaves
  the handler. The result is the lines printed, the requests sent and the exception
  that escaped, if any.
\<close>

definition send_to_slack :: "world \<Rightarrow> pyval \<Rightarrow> string \<Rightarrow> log_line list \<times> request list \<times> exn option" where
  "send_to_slack w issue_url slack_url =
     (case Request_raises w slack_url of
        Some e \<Rightarrow> ([], [], Some e)
      | None \<Rightarrow>
          (let req = build_request w issue_url slack_url
           in case urlopen w req of
                Inr status \<Rightarrow> ([MessagePosted status], [req], None)
              | Inl (HTTPError code reason) \<Rightarrow> ([SlackHTTPError code reason], [req], None)
              | Inl (URLError reason) \<Rightarrow> ([SlackURLError reason], [req], None)
              | Inl e \<Rightarrow> ([], [req], Some e)))"

text \<open>
  Lines 75 to 101: \<^verbatim>\<open>if issue_url and slack_url: ... elif issue_url: ... else: ...\<close>.
  In the first branch \<^verbatim>\<open>slack_url\<close> is true, so it is a non-empty \<^verbatim>\<open>str\<close>.
\<close>

definition notify :: "world \<Rightarrow> pyval \<Rightarrow> string option \<Rightarrow> log_line list \<times> request list \<times> exn option" where
  "notify w issue_url slack_url =
     (if truthy issue_url \<and> env_truthy slack_url then
        (case slack_url of
           Some url \<Rightarrow> send_to_slack w issue_url url
         | None \<Rightarrow> ([], [], None))
      else if truthy issue_url then ([IssueUrlButNoSlackUrl], [], None)
      else ([NoIssueUrl], [], None))"

text \<open>Lines 106 to 110: the dict that becomes the body of the response.\<close>

definition response_body :: "pyval \<Rightarrow> string option \<Rightarrow> pyval" where
  "response_body issue_url slack_url =
     PDict [(''message'', PStr ''success''),
            (''issueUrl'', issue_url),
            (''connectedToSlack'', PBool (env_truthy slack_url))]"

text \<open>The whole of \<^verbatim>\<open>lambda_handler\<close>. The context is never used.\<close>

definition lambda_handler :: "world \<Rightarrow> pyval \<Rightarrow> 'c \<Rightarrow> outcome" where
  "lambda_handler w event context =
     (let slack_url = environ w ''SLACK_URL'';
          log0 = (if \<not> env_truthy slack_url then [SlackUrlNotSet] else []);
          payload = parse_payload w (resolve_body event)
      in case extract_issue_url payload of
           Inl e \<Rightarrow> \<lparr>logs = log0, posts = [], result = Inl e\<rparr>
         | Inr issue_url \<Rightarrow>
             (case notify w issue_url slack_url of
                (log1, sent, Some e) \<Rightarrow> \<lparr>logs = log0 @ log1, posts = sent, result = Inl e\<rparr>
              | (log1, sent, None) \<Rightarrow>
                  \<lparr>logs = log0 @ log1, posts = sent,
                   result = Inr \<lparr>statusCode = 200,
                                 body = json_dumps w (response_body issue_url slack_url)\<rparr>\<rparr>))"

section \<open>The outcomes of sending that the handler continues from\<close>

text \<open>
  The two \<^verbatim>\<open>except\<close> clauses around \<^verbatim>\<open>urlopen\<close> (lines 90 to 93) name the classes
  \<^verbatim>\<open>HTTPError\<close> and \<^verbatim>\<open>URLError\<close>. \<open>is_caught\<close> says whether an exception is an instance
  of one of them; \<open>handled\<close> says that sending ended in a way the handler continues
  from: a response, or a caught exception.
\<close>

fun is_caught :: "exn \<Rightarrow> bool" where
  "is_caught (HTTPError code reason) = True"
| "is_caught (URLError reason) = True"
| "is_caught _ = False"

fun handled :: "exn + int \<Rightarrow> bool" where
  "handled (Inr status) = True"
| "handled (Inl e) = is_caught e"

section \<open>A sample world\<close>

text \<open>
  The examples below run the handler in a concrete world. Its \<^verbatim>\<open>json.loads\<close> is the
  table of what the real function returns for the JSON bodies the examples use. On a
  \<^verbatim>\<open>str\<close> outside the table it raises \<^verbatim>\<open>JSONDecodeError\<close>; the only such text the
  examples pass is \<^verbatim>\<open>not json\<close>, on which the real function raises it too. An argument
  that is not a \<^verbatim>\<open>str\<close> raises \<^verbatim>\<open>TypeError\<close>, as the real function does for a dict, a
  list, a number or \<^verbatim>\<open>None\<close>. The real function accepts the constant \<^verbatim>\<open>NaN\<close>, which is
  not JSON, and returns the float \<^verbatim>\<open>nan\<close>: the double with the bits \<open>0x7FF8000000000000\<close>.
\<close>

definition json_loads_table :: "(string \<times> pyval) list" where
  \<open>json_loads_table =
     [(''{"issue": {"html_url": "https://github.com/org/repo/issues/5"}}'',
         PDict [(''issue'', PDict [(''html_url'', PStr ''https://github.com/org/repo/issues/5'')])]),
      (''{"issue": {"html_url": ""}}'', PDict [(''issue'', PDict [(''html_url'', PStr [])])]),
      (''{"zen": "Keep it simple."}'', PDict [(''zen'', PStr ''Keep it simple.'')]),
      (''5'', PInt 5),
      (''null'', PNone),
      (''NaN'', PFloat 0x7FF8000000000000),
      (''{"issue": {"html_url": NaN}}'',
         PDict [(''issue'', PDict [(''html_url'', PFloat 0x7FF8000000000000)])]),
      (''["issue"]'', PList [PStr ''issue'']),
      (''"an issue"'', PStr ''an issue'')]\<close>

definition json_loads_sample :: "pyval \<Rightarrow> exn + pyval" where
  "json_loads_sample b =
     (case b of
        PStr s \<Rightarrow> (case map_of json_loads_table s of Some v \<Rightarrow> Inr v | None \<Rightarrow> Inl JSONDecodeError)
      | _ \<Rightarrow> Inl TypeError)"

text \<open>
  \<^verbatim>\<open>json.dumps\<close> on what the examples serialise: a dict whose values are strings without
  characters to escape, bools, \<^verbatim>\<open>None\<close> or the float \<^verbatim>\<open>nan\<close> (the only float of the
  examples, written \<^verbatim>\<open>NaN\<close>), with the default separators.
\<close>

fun json_atom :: "pyval \<Rightarrow> string" where
  \<open>json_atom (PStr s) = ''"'' @ s @ ''"''\<close>
| "json_atom (PBool b) = (if b then ''true'' else ''false'')"
| "json_atom (PFloat x) = ''NaN''"
| "json_atom _ = ''null''"

fun json_items :: "(string \<times> pyval) list \<Rightarrow> string" where
  "json_items [] = []"
| "json_items [(k, v)] = json_atom (PStr k) @ '': '' @ json_atom v"
| "json_items ((k, v) # kvs) = json_atom (PStr k) @ '': '' @ json_atom v @ '', '' @ json_items kvs"

definition json_dumps_sample :: "pyval \<Rightarrow> string" where
  "json_dumps_sample v = (case v of PDict d \<Rightarrow> ''{'' @ json_items d @ ''}'' | _ \<Rightarrow> json_atom v)"

text \<open>\<^verbatim>\<open>str\<close> on a string, a bool, \<^verbatim>\<open>None\<close> and the float \<^verbatim>\<open>nan\<close> (the only float of the
  examples); no example formats another value.\<close>

definition str_sample :: "pyval \<Rightarrow> string" where
  "str_sample v =
     (case v of
        PStr s \<Rightarrow> s
      | PBool b \<Rightarrow> (if b then ''True'' else ''False'')
      | PFloat x \<Rightarrow> ''nan''
      | _ \<Rightarrow> ''None'')"

text \<open>
  \<^verbatim>\<open>Request(url, ...)\<close> raises \<^verbatim>\<open>ValueError\<close> (unknown url type) for a URL that does not
  start with a scheme: a non-empty run of characters other than \<^verbatim>\<open>/\<close> and \<^verbatim>\<open>:\<close>,
  followed by a colon. The real constructor first strips white space, angle brackets
  and a leading \<^verbatim>\<open>URL:\<close>; the examples use two URLs without any of these, on which this
  test and the constructor agree.
\<close>

definition url_has_scheme :: "string \<Rightarrow> bool" where
  "url_has_scheme u =
     (let p = takeWhile (\<lambda>c. c \<noteq> CHR ''/'' \<and> c \<noteq> CHR '':'') u
      in p \<noteq> [] \<and> take 1 (drop (length p) u) = '':'')"

text \<open>The sample world, for a value of \<^verbatim>\<open>SLACK_URL\<close> and a behaviour of the network.\<close>

definition sample_world :: "string option \<Rightarrow> (request \<Rightarrow> exn + int) \<Rightarrow> world" where
  "sample_world slack net =
     \<lparr>environ = (\<lambda>k. if k = ''SLACK_URL'' then slack else None),
      json_loads = json_loads_sample,
      json_dumps = json_dumps_sample,
      str_of = str_sample,
      Request_raises = (\<lambda>u. if url_has_scheme u then None else Some ValueError),
      urlopen = net\<rparr>"

text \<open>An event as API Gateway delivers a GitHub "issues" webhook, a configured webhook
  URL, and one written without its scheme.\<close>

definition issue_event :: pyval where
  \<open>issue_event =
     PDict [(''headers'', PDict [(''X-GitHub-Event'', PStr ''issues'')]),
            (''body'', PStr ''{"issue": {"html_url": "https://github.com/org/repo/issues/5"}}'')]\<close>

definition hook :: string where
  "hook = ''https://hooks.slack.com/services/T0/B0/x''"

definition hook_without_scheme :: string where
  "hook_without_scheme = ''hooks.slack.com/services/T0/B0/x''"

lemmas sample_defs =
  sample_world_def json_loads_sample_def json_loads_table_def json_dumps_sample_def
  str_sample_def url_has_scheme_def issue_event_def hook_def hook_without_scheme_def

section \<open>Properties of the steps\<close>

lemma parse_payload_fallback:
  "json_loads w b = Inl e \<Longrightarrow> parse_payload w b = PDict [(''raw'', b)]"
  by (simp add: parse_payload_def)

lemma parse_payload_ok:
  "json_loads w b = Inr p \<Longrightarrow> parse_payload w b = p"
  by (simp add: parse_payload_def)

lemma extract_dict:
  "extract_issue_url (PDict p) =
     Inr (case map_of p ''issue'' of Some (PDict i) \<Rightarrow> dict_get i ''html_url'' | _ \<Rightarrow> PNone)"
  by (simp add: extract_issue_url_def split: option.splits pyval.splits)

lemma extract_is_dict:
  "is_dict payload \<Longrightarrow> \<exists>iu. extract_issue_url payload = Inr iu"
  by (cases payload) (simp_all add: extract_dict)

lemma build_request_str:
  "build_request w (PStr U) D =
     \<lparr>full_url = D,
      data = json_dumps w (PDict [(''text'', PStr ('':tada: New GitHub Issue created: '' @ U))]),
      headers = [(''Content-Type'', ''application/json'')]\<rparr>"
  by (simp add: build_request_def message_text_def)

lemma send_handled:
  assumes "Request_raises w D = None"
    and "handled (urlopen w (build_request w iu D))"
  shows "\<exists>l. send_to_slack w iu D = (l, [build_request w iu D], None)"
proof (cases "urlopen w (build_request w iu D)")
  case (Inl e)
  with assms(2) have "is_caught e" by simp
  with Inl assms(1) show ?thesis
    by (cases e) (simp_all add: send_to_slack_def)
next
  case (Inr status)
  with assms(1) show ?thesis
    by (simp add: send_to_slack_def)
qed

lemma send_posts_at_most_one:
  "send_to_slack w iu D = (l, sent, r) \<Longrightarrow> length sent \<le> 1"
  by (auto simp add: send_to_slack_def Let_def split: option.splits sum.splits exn.splits)

lemma notify_falsy:
  "\<not> truthy iu \<Longrightarrow> notify w iu slack = ([NoIssueUrl], [], None)"
  by (cases slack) (simp_all add: notify_def)

lemma notify_no_slack:
  "\<not> env_truthy slack \<Longrightarrow>
     notify w iu slack = ([if truthy iu then IssueUrlButNoSlackUrl else NoIssueUrl], [], None)"
  by (cases slack) (simp_all add: notify_def)

lemma notify_send:
  "truthy iu \<Longrightarrow> D \<noteq> [] \<Longrightarrow> notify w iu (Some D) = send_to_slack w iu D"
  by (simp add: notify_def)

lemma notify_handled:
  assumes "\<forall>D. slack = Some D \<longrightarrow> Request_raises w D = None"
    and "\<forall>req. handled (urlopen w req)"
  shows "\<exists>l sent. notify w iu slack = (l, sent, None)"
proof (cases "truthy iu \<and> env_truthy slack")
  case True
  then obtain D where D: "slack = Some D" "D \<noteq> []"
    by (cases slack) simp_all
  from assms(1) D(1) have R: "Request_raises w D = None"
    by simp
  from assms(2) have H: "handled (urlopen w (build_request w iu D))"
    by simp
  from send_handled [OF R H] obtain l where
    "send_to_slack w iu D = (l, [build_request w iu D], None)" ..
  with True D show ?thesis
    by (simp add: notify_send)
next
  case False
  then show ?thesis
    by (cases "truthy iu") (simp_all add: notify_falsy notify_no_slack)
qed

lemma handler_returns:
  assumes "extract_issue_url (parse_payload w (resolve_body event)) = Inr iu"
    and "notify w iu (environ w ''SLACK_URL'') = (l, sent, None)"
  shows "result (lambda_handler w event ctx) =
           Inr \<lparr>statusCode = 200,
                 body = json_dumps w (response_body iu (environ w ''SLACK_URL''))\<rparr>"
    and "posts (lambda_handler w event ctx) = sent"
  using assms by (simp_all add: lambda_handler_def Let_def)

lemma handler_response:
  assumes "result (lambda_handler w event ctx) = Inr r"
  shows "\<exists>iu. extract_issue_url (parse_payload w (resolve_body event)) = Inr iu \<and>
           r = \<lparr>statusCode = 200,
                 body = json_dumps w (response_body iu (environ w ''SLACK_URL''))\<rparr>"
  using assms
  by (auto simp add: lambda_handler_def Let_def split: sum.splits prod.splits option.splits)

lemma parse_payload_urlopen_update [simp]:
  "parse_payload (w\<lparr>urlopen := net\<rparr>) b = parse_payload w b"
  by (simp add: parse_payload_def)

lemma build_request_urlopen_update [simp]:
  "build_request (w\<lparr>urlopen := net\<rparr>) iu D = build_request w iu D"
  by (cases iu) (simp_all add: build_request_def message_text_def)

text \<open>What leaves \<^verbatim>\<open>send_to_slack\<close> and \<^verbatim>\<open>notify\<close> as an exception.\<close>

lemma send_escapes:
  "snd (snd (send_to_slack w iu D)) =
     (case Request_raises w D of
        Some e \<Rightarrow> Some e
      | None \<Rightarrow>
          (case urlopen w (build_request w iu D) of
             Inr status \<Rightarrow> None
           | Inl e \<Rightarrow> if is_caught e then None else Some e))"
  by (simp add: send_to_slack_def Let_def split: option.splits sum.splits exn.splits)

lemma notify_escapes:
  "snd (snd (notify w iu slack)) =
     (case slack of
        None \<Rightarrow> None
      | Some D \<Rightarrow> if truthy iu \<and> D \<noteq> [] then snd (snd (send_to_slack w iu D)) else None)"
  by (simp add: notify_def split: option.splits)

lemma handler_result:
  "result (lambda_handler w event ctx) =
     (case extract_issue_url (parse_payload w (resolve_body event)) of
        Inl e \<Rightarrow> Inl e
      | Inr iu \<Rightarrow>
          (case snd (snd (notify w iu (environ w ''SLACK_URL''))) of
             Some e \<Rightarrow> Inl e
           | None \<Rightarrow>
               Inr \<lparr>statusCode = 200,
                     body = json_dumps w (response_body iu (environ w ''SLACK_URL''))\<rparr>))"
  by (simp add: lambda_handler_def Let_def split: sum.splits prod.splits option.splits)


lemma handled_escapes_nothing:
  "handled r \<Longrightarrow> (case r of Inr status \<Rightarrow> None | Inl e \<Rightarrow> if is_caught e then None else Some e) = None"
  by (cases r) simp_all

lemma send_escapes_same:
  assumes "urlopen w (build_request w iu D) = net (build_request w iu D)
           \<or> (handled (urlopen w (build_request w iu D)) \<and> handled (net (build_request w iu D)))"
  shows "snd (snd (send_to_slack (w\<lparr>urlopen := net\<rparr>) iu D)) = snd (snd (send_to_slack w iu D))"
proof (cases "Request_raises w D")
  case None
  from assms show ?thesis
  proof
    assume "urlopen w (build_request w iu D) = net (build_request w iu D)"
    with None show ?thesis
      by (simp add: send_escapes)
  next
    assume "handled (urlopen w (build_request w iu D)) \<and> handled (net (build_request w iu D))"
    with None show ?thesis
      by (simp add: send_escapes handled_escapes_nothing)
  qed
next
  case (Some e)
  then show ?thesis
    by (simp add: send_escapes)
qed

lemma handler_posts:
  "posts (lambda_handler w event ctx) =
     (case extract_issue_url (parse_payload w (resolve_body event)) of
        Inl e \<Rightarrow> []
      | Inr iu \<Rightarrow> fst (snd (notify w iu (environ w ''SLACK_URL''))))"
  by (simp add: lambda_handler_def Let_def split: sum.splits prod.splits option.splits)

lemma notify_posts_at_most_one:
  "length (fst (snd (notify w iu slack))) \<le> 1"
proof (cases "send_to_slack w iu (case slack of Some D \<Rightarrow> D | None \<Rightarrow> [])")
  case (fields l sent r)
  then have "length sent \<le> 1"
    by (rule send_posts_at_most_one)
  with fields show ?thesis
    by (cases slack) (simp_all add: notify_def)
qed

lemma handler_on_dict_payload:
  assumes "parse_payload w (resolve_body event) = PDict p"
    and "\<forall>D. environ w ''SLACK_URL'' = Some D \<longrightarrow> Request_raises w D = None"
    and "\<forall>req. handled (urlopen w req)"
  shows "result (lambda_handler w event ctx) =
           Inr \<lparr>statusCode = 200,
                 body = json_dumps w
                   (PDict [(''message'', PStr ''success''),
                           (''issueUrl'',
                              case map_of p ''issue'' of
                                Some (PDict i) \<Rightarrow>
                                  (case map_of i ''html_url'' of Some u \<Rightarrow> u | None \<Rightarrow> PNone)
                              | _ \<Rightarrow> PNone),
                           (''connectedToSlack'', PBool (env_truthy (environ w ''SLACK_URL'')))])\<rparr>"
proof -
  let ?iu = "case map_of p ''issue'' of
               Some (PDict i) \<Rightarrow> (case map_of i ''html_url'' of Some u \<Rightarrow> u | None \<Rightarrow> PNone)
             | _ \<Rightarrow> PNone"
  have E: "extract_issue_url (parse_payload w (resolve_body event)) = Inr ?iu"
    by (simp add: assms(1) extract_issue_url_def dict_get_def split: option.splits pyval.splits)
  have "\<exists>l sent. notify w ?iu (environ w ''SLACK_URL'') = (l, sent, None)"
    by (rule notify_handled [OF assms(2) assms(3)])
  then obtain l sent where N: "notify w ?iu (environ w ''SLACK_URL'') = (l, sent, None)"
    by blast
  from handler_returns(1) [OF E N, of ctx] show ?thesis
    by (simp only: response_body_def)
qed

lemma handler_on_fallback:
  assumes "json_loads w (resolve_body event) = Inl e"
  shows "result (lambda_handler w event ctx) =
           Inr \<lparr>statusCode = 200,
                 body = json_dumps w
                   (PDict [(''message'', PStr ''success''),
                           (''issueUrl'', PNone),
                           (''connectedToSlack'', PBool (env_truthy (environ w ''SLACK_URL'')))])\<rparr>"
proof -
  have P: "parse_payload w (resolve_body event) = PDict [(''raw'', resolve_body event)]"
    by (rule parse_payload_fallback [OF assms])
  have E: "extract_issue_url (parse_payload w (resolve_body event)) = Inr PNone"
    by (simp add: P extract_dict)
  have N: "notify w PNone (environ w ''SLACK_URL'') = ([NoIssueUrl], [], None)"
    by (simp add: notify_falsy)
  from handler_returns(1) [OF E N, of ctx] show ?thesis
    by (simp only: response_body_def)
qed

lemma resolve_body_with_key:
  "map_of d ''body'' = Some b \<Longrightarrow> resolve_body (PDict d) = b"
  by (simp add: resolve_body_def)

lemma resolve_body_otherwise:
  "\<not> is_dict ev \<or> (\<exists>dd. ev = PDict dd \<and> map_of dd ''body'' = None) \<Longrightarrow> resolve_body ev = ev"
  by (cases ev) (auto simp add: resolve_body_def)

section \<open>The claims\<close>

text \<open>
  C1, as amended. The claim reads: for every event and context the handler returns a
  response with status code 200 and never raises. The handler does raise: an exception of
  the \<^verbatim>\<open>Request\<close> constructor, or one of \<^verbatim>\<open>urlopen\<close> that is neither an \<^verbatim>\<open>HTTPError\<close>
  nor a \<^verbatim>\<open>URLError\<close>, leaves it, and so does the \<^verbatim>\<open>TypeError\<close> of the membership test on a
  payload that is a number, a bool or \<^verbatim>\<open>None\<close>. What holds: whenever the payload (the
  parsed body, or the fallback dict) is a dict, the \<^verbatim>\<open>Request\<close> constructor accepts the
  configured URL and sending ends in a response, an \<^verbatim>\<open>HTTPError\<close> or a \<^verbatim>\<open>URLError\<close>, the
  handler returns a response with status code 200.
\<close>

theorem C1_returns_200:
  assumes "is_dict (parse_payload w (resolve_body event))"
    and "\<forall>D. environ w ''SLACK_URL'' = Some D \<longrightarrow> Request_raises w D = None"
    and "\<forall>req. handled (urlopen w req)"
  shows "\<exists>iu. result (lambda_handler w event ctx) =
           Inr \<lparr>statusCode = 200,
                 body = json_dumps w (response_body iu (environ w ''SLACK_URL''))\<rparr>"
proof -
  from extract_is_dict [OF assms(1)] obtain iu where
    E: "extract_issue_url (parse_payload w (resolve_body event)) = Inr iu" ..
  have "\<exists>l sent. notify w iu (environ w ''SLACK_URL'') = (l, sent, None)"
    by (rule notify_handled [OF assms(2) assms(3)])
  then obtain l sent where N: "notify w iu (environ w ''SLACK_URL'') = (l, sent, None)"
    by blast
  from handler_returns(1) [OF E N] show ?thesis
    by (rule exI [where x = iu])
qed


theorem C1_returns_200_witness:
  \<open>is_dict (parse_payload (sample_world (Some hook) (\<lambda>req. Inl (HTTPError 404 ''Not Found'')))
              (resolve_body issue_event))
   \<and> (\<exists>iu. result (lambda_handler (sample_world (Some hook) (\<lambda>req. Inl (HTTPError 404 ''Not Found'')))
                     issue_event ()) =
             Inr \<lparr>statusCode = 200,
                   body = json_dumps_sample (response_body iu (Some hook))\<rparr>)\<close>
proof -
  let ?w = "sample_world (Some hook) (\<lambda>req. Inl (HTTPError 404 ''Not Found''))"
  have h1: "is_dict (parse_payload ?w (resolve_body issue_event))"
    by (simp add: sample_defs resolve_body_def parse_payload_def)
  have h2: "\<forall>D. environ ?w ''SLACK_URL'' = Some D \<longrightarrow> Request_raises ?w D = None"
    by (simp add: sample_defs)
  have h3: "\<forall>req. handled (urlopen ?w req)"
    by (simp add: sample_world_def)
  from C1_returns_200 [OF h1 h2 h3, of "()"] h1 show ?thesis
    by (simp add: sample_world_def)
qed


theorem C1_counterexample:
  \<open>result (lambda_handler (sample_world (Some hook_without_scheme) (\<lambda>req. Inr 200))
             issue_event ()) = Inl ValueError
   \<and> result (lambda_handler (sample_world (Some hook) (\<lambda>req. Inl (OtherError ''RemoteDisconnected'')))
               issue_event ()) = Inl (OtherError ''RemoteDisconnected'')
   \<and> result (lambda_handler (sample_world (Some hook) (\<lambda>req. Inr 200))
               (PDict [(''body'', PStr ''5'')]) ()) = Inl TypeError\<close>
  by (simp add: handler_result notify_escapes send_escapes sample_defs resolve_body_def
      parse_payload_def extract_issue_url_def dict_get_def)

text \<open>
  C2, as amended. When the resolved body parses to a dict whose \<^verbatim>\<open>"issue"\<close> value is a
  dict with \<^verbatim>\<open>"html_url"\<close> a non-empty string \<open>U\<close>, \<^verbatim>\<open>SLACK_URL\<close> is the non-empty string
  \<open>D\<close>, the \<^verbatim>\<open>Request\<close> constructor accepts \<open>D\<close> and sending ends in a response, an
  \<^verbatim>\<open>HTTPError\<close> or a \<^verbatim>\<open>URLError\<close>, the handler sends exactly one request, to \<open>D\<close>, with
  the header \<^verbatim>\<open>Content-Type: application/json\<close> and the serialised
  \<^verbatim>\<open>{"text": ":tada: New GitHub Issue created: " + U}\<close> as data, and returns status code
  200 with the serialised \<^verbatim>\<open>{message: "success", issueUrl: U, connectedToSlack: true}\<close>.
\<close>

theorem C2_issue_is_posted:
  assumes P: "json_loads w (resolve_body event) = Inr (PDict p)"
    and I: "map_of p ''issue'' = Some (PDict i)"
    and U: "map_of i ''html_url'' = Some (PStr U)" "U \<noteq> []"
    and D: "environ w ''SLACK_URL'' = Some D" "D \<noteq> []"
    and R: "Request_raises w D = None"
    and H: "handled (urlopen w
              \<lparr>full_url = D,
               data = json_dumps w
                 (PDict [(''text'', PStr ('':tada: New GitHub Issue created: '' @ U))]),
               headers = [(''Content-Type'', ''application/json'')]\<rparr>)"
  shows "posts (lambda_handler w event ctx) =
           [\<lparr>full_url = D,
             data = json_dumps w
               (PDict [(''text'', PStr ('':tada: New GitHub Issue created: '' @ U))]),
             headers = [(''Content-Type'', ''application/json'')]\<rparr>]
       \<and> result (lambda_handler w event ctx) =
           Inr \<lparr>statusCode = 200,
                 body = json_dumps w
                   (PDict [(''message'', PStr ''success''),
                           (''issueUrl'', PStr U),
                           (''connectedToSlack'', PBool True)])\<rparr>"
proof -
  have E: "extract_issue_url (parse_payload w (resolve_body event)) = Inr (PStr U)"
    using P I U(1) by (simp add: parse_payload_ok extract_dict dict_get_def)
  have H': "handled (urlopen w (build_request w (PStr U) D))"
    using H by (simp add: build_request_str)
  from send_handled [OF R H'] obtain l where
    S: "send_to_slack w (PStr U) D = (l, [build_request w (PStr U) D], None)" ..
  have N: "notify w (PStr U) (environ w ''SLACK_URL'') = (l, [build_request w (PStr U) D], None)"
    using S U(2) D by (simp add: notify_send)
  have "posts (lambda_handler w event ctx) = [build_request w (PStr U) D]"
    by (rule handler_returns(2) [OF E N])
  moreover have "result (lambda_handler w event ctx) =
      Inr \<lparr>statusCode = 200,
            body = json_dumps w (response_body (PStr U) (environ w ''SLACK_URL''))\<rparr>"
    by (rule handler_returns(1) [OF E N])
  ultimately show ?thesis
    using D by (simp add: build_request_str response_body_def)
qed

theorem C2_issue_is_posted_witness:
  \<open>posts (lambda_handler (sample_world (Some hook) (\<lambda>req. Inr 200)) issue_event ()) =
      [\<lparr>full_url = ''https://hooks.slack.com/services/T0/B0/x'',
        data = ''{"text": ":tada: New GitHub Issue created: https://github.com/org/repo/issues/5"}'',
        headers = [(''Content-Type'', ''application/json'')]\<rparr>]
   \<and> result (lambda_handler (sample_world (Some hook) (\<lambda>req. Inr 200)) issue_event ()) =
      Inr \<lparr>statusCode = 200,
            body = ''{"message": "success", "issueUrl": "https://github.com/org/repo/issues/5", "connectedToSlack": true}''\<rparr>\<close>
proof -
  let ?w = "sample_world (Some hook) (\<lambda>req. Inr 200)"
  let ?U = "''https://github.com/org/repo/issues/5''"
  let ?i = "[(''html_url'', PStr ?U)]"
  let ?p = "[(''issue'', PDict ?i)]"
  have P: "json_loads ?w (resolve_body issue_event) = Inr (PDict ?p)"
    by (simp add: sample_defs resolve_body_def)
  have I: "map_of ?p ''issue'' = Some (PDict ?i)"
    by simp
  have U: "map_of ?i ''html_url'' = Some (PStr ?U)" "?U \<noteq> []"
    by simp_all
  have D: "environ ?w ''SLACK_URL'' = Some hook" "hook \<noteq> []"
    by (simp_all add: sample_defs)
  have R: "Request_raises ?w hook = None"
    by (simp add: sample_defs)
  have H: "handled (urlopen ?w
              \<lparr>full_url = hook,
               data = json_dumps ?w
                 (PDict [(''text'', PStr ('':tada: New GitHub Issue created: '' @ ?U))]),
               headers = [(''Content-Type'', ''application/json'')]\<rparr>)"
    by (simp add: sample_world_def)
  from C2_issue_is_posted [OF P I U D R H, of "()"] show ?thesis
    by (simp add: sample_world_def json_dumps_sample_def hook_def)
qed

theorem C2_counterexample:
  \<open>json_loads (sample_world (Some hook_without_scheme) (\<lambda>req. Inr 200)) (resolve_body issue_event) =
      Inr (PDict [(''issue'', PDict [(''html_url'', PStr ''https://github.com/org/repo/issues/5'')])])
   \<and> environ (sample_world (Some hook_without_scheme) (\<lambda>req. Inr 200)) ''SLACK_URL'' =
      Some ''hooks.slack.com/services/T0/B0/x''
   \<and> posts (lambda_handler (sample_world (Some hook_without_scheme) (\<lambda>req. Inr 200)) issue_event ()) = []
   \<and> result (lambda_handler (sample_world (Some hook_without_scheme) (\<lambda>req. Inr 200)) issue_event ()) =
      Inl ValueError\<close>
  by (simp add: lambda_handler_def notify_def send_to_slack_def sample_defs resolve_body_def
      parse_payload_def extract_issue_url_def dict_get_def)

text \<open>
  C3. The claim reads: a payload of any other shape than a dict (a list, a string, a
  number, a bool, \<^verbatim>\<open>None\<close>) yields the issue URL \<^verbatim>\<open>None\<close> and no error. The code
  evaluates \<^verbatim>\<open>"issue" in payload\<close> on whatever \<^verbatim>\<open>json.loads\<close> returned: on a number, a
  bool or \<^verbatim>\<open>None\<close> the test itself raises \<^verbatim>\<open>TypeError\<close>; on a list with the element
  \<^verbatim>\<open>"issue"\<close> and on a string with the substring \<^verbatim>\<open>issue\<close> the test is true and
  \<^verbatim>\<open>payload["issue"]\<close> raises \<^verbatim>\<open>TypeError\<close>. The exception leaves the handler.
\<close>

theorem C3_non_mapping_payload_raises:
  \<open>extract_issue_url (PInt 5) = Inl TypeError
   \<and> extract_issue_url (PFloat 0) = Inl TypeError
   \<and> extract_issue_url (PBool True) = Inl TypeError
   \<and> extract_issue_url PNone = Inl TypeError
   \<and> extract_issue_url (PList [PStr ''issue'']) = Inl TypeError
   \<and> extract_issue_url (PStr ''an issue'') = Inl TypeError
   \<and> result (lambda_handler (sample_world (Some hook) (\<lambda>req. Inr 200))
               (PDict [(''body'', PStr ''["issue"]'')]) ()) = Inl TypeError
   \<and> result (lambda_handler (sample_world (Some hook) (\<lambda>req. Inr 200))
               (PDict [(''body'', PStr ''"an issue"'')]) ()) = Inl TypeError\<close>
  by (simp add: extract_issue_url_def handler_result sample_defs resolve_body_def
      parse_payload_def)

text \<open>
  C4, as amended. The claim reads: any error of the outbound POST (connection failure,
  non-2xx response, timeout, malformed destination URL) is caught and the response is the
  one of a successful POST. The handler catches \<^verbatim>\<open>HTTPError\<close> and \<^verbatim>\<open>URLError\<close> raised by
  \<^verbatim>\<open>urlopen\<close> and nothing else. What holds: when the payload is a dict, the \<^verbatim>\<open>Request\<close>
  constructor accepts the configured URL and \<^verbatim>\<open>urlopen\<close> raises an \<^verbatim>\<open>HTTPError\<close> or a
  \<^verbatim>\<open>URLError\<close>, the handler returns status code 200 with the body it returns when the
  POST succeeds with any status.
\<close>

theorem C4_caught_errors_keep_response:
  assumes "is_dict (parse_payload w (resolve_body event))"
    and "\<forall>D. environ w ''SLACK_URL'' = Some D \<longrightarrow> Request_raises w D = None"
    and "\<forall>req. \<exists>e. urlopen w req = Inl e \<and> is_caught e"
  shows "\<exists>iu. result (lambda_handler w event ctx) =
             Inr \<lparr>statusCode = 200,
                   body = json_dumps w (response_body iu (environ w ''SLACK_URL''))\<rparr>
           \<and> result (lambda_handler (w\<lparr>urlopen := \<lambda>req. Inr status\<rparr>) event ctx) =
             Inr \<lparr>statusCode = 200,
                   body = json_dumps w (response_body iu (environ w ''SLACK_URL''))\<rparr>"
proof -
  let ?ok = "w\<lparr>urlopen := \<lambda>req. Inr status\<rparr>"
  from extract_is_dict [OF assms(1)] obtain iu where
    E: "extract_issue_url (parse_payload w (resolve_body event)) = Inr iu" ..
  have F: "\<forall>req. handled (urlopen w req)"
  proof
    fix req
    from assms(3) obtain e where "urlopen w req = Inl e" "is_caught e"
      by blast
    then show "handled (urlopen w req)"
      by simp
  qed
  have "\<exists>l sent. notify w iu (environ w ''SLACK_URL'') = (l, sent, None)"
    by (rule notify_handled [OF assms(2) F])
  then obtain l sent where N: "notify w iu (environ w ''SLACK_URL'') = (l, sent, None)"
    by blast
  have E': "extract_issue_url (parse_payload ?ok (resolve_body event)) = Inr iu"
    using E by simp
  have R': "\<forall>D. environ ?ok ''SLACK_URL'' = Some D \<longrightarrow> Request_raises ?ok D = None"
    using assms(2) by simp
  have F': "\<forall>req. handled (urlopen ?ok req)"
    by simp
  have "\<exists>l sent. notify ?ok iu (environ ?ok ''SLACK_URL'') = (l, sent, None)"
    by (rule notify_handled [OF R' F'])
  then obtain l' sent' where N': "notify ?ok iu (environ ?ok ''SLACK_URL'') = (l', sent', None)"
    by blast
  have "result (lambda_handler w event ctx) =
      Inr \<lparr>statusCode = 200,
            body = json_dumps w (response_body iu (environ w ''SLACK_URL''))\<rparr>"
    by (rule handler_returns(1) [OF E N])
  moreover have "result (lambda_handler ?ok event ctx) =
      Inr \<lparr>statusCode = 200,
            body = json_dumps w (response_body iu (environ w ''SLACK_URL''))\<rparr>"
    using handler_returns(1) [OF E' N', of ctx] by simp
  ultimately show ?thesis
    by (intro exI [where x = iu] conjI)
qed

theorem C4_caught_errors_keep_response_witness:
  \<open>result (lambda_handler (sample_world (Some hook) (\<lambda>req. Inl (URLError ''[Errno 111] Connection refused'')))
            issue_event ()) =
      Inr \<lparr>statusCode = 200,
            body = ''{"message": "success", "issueUrl": "https://github.com/org/repo/issues/5", "connectedToSlack": true}''\<rparr>
   \<and> result (lambda_handler (sample_world (Some hook) (\<lambda>req. Inr 200)) issue_event ()) =
      Inr \<lparr>statusCode = 200,
            body = ''{"message": "success", "issueUrl": "https://github.com/org/repo/issues/5", "connectedToSlack": true}''\<rparr>\<close>
proof -
  let ?w = "sample_world (Some hook) (\<lambda>req. Inl (URLError ''[Errno 111] Connection refused''))"
  have h1: "is_dict (parse_payload ?w (resolve_body issue_event))"
    by (simp add: sample_defs resolve_body_def parse_payload_def)
  have h2: "\<forall>D. environ ?w ''SLACK_URL'' = Some D \<longrightarrow> Request_raises ?w D = None"
    by (simp add: sample_defs)
  have h3: "\<forall>req. \<exists>e. urlopen ?w req = Inl e \<and> is_caught e"
    by (simp add: sample_world_def)
  have ok: "?w\<lparr>urlopen := \<lambda>req. Inr 200\<rparr> = sample_world (Some hook) (\<lambda>req. Inr 200)"
    by (simp add: sample_world_def)
  have first: "result (lambda_handler ?w issue_event ()) =
      Inr \<lparr>statusCode = 200,
            body = ''{\"message\": \"success\", \"issueUrl\": \"https://github.com/org/repo/issues/5\", \"connectedToSlack\": true}''\<rparr>"
    by (simp add: handler_result notify_escapes send_escapes sample_defs resolve_body_def
        parse_payload_def extract_issue_url_def dict_get_def response_body_def)
  from C4_caught_errors_keep_response [OF h1 h2 h3, of "()" 200] obtain iu where
    "result (lambda_handler ?w issue_event ()) =
       Inr \<lparr>statusCode = 200,
             body = json_dumps ?w (response_body iu (environ ?w ''SLACK_URL''))\<rparr>"
    "result (lambda_handler (?w\<lparr>urlopen := \<lambda>req. Inr 200\<rparr>) issue_event ()) =
       Inr \<lparr>statusCode = 200,
             body = json_dumps ?w (response_body iu (environ ?w ''SLACK_URL''))\<rparr>"
    by blast
  then have "result (lambda_handler (?w\<lparr>urlopen := \<lambda>req. Inr 200\<rparr>) issue_event ()) =
      result (lambda_handler ?w issue_event ())"
    by simp
  with first ok show ?thesis
    by simp
qed

theorem C4_counterexample:
  \<open>result (lambda_handler (sample_world (Some hook_without_scheme)
              (\<lambda>req. Inl (URLError ''[Errno 111] Connection refused''))) issue_event ()) =
      Inl ValueError
   \<and> result (lambda_handler (sample_world (Some hook)
              (\<lambda>req. Inl (OtherError ''RemoteDisconnected''))) issue_event ()) =
      Inl (OtherError ''RemoteDisconnected'')
   \<and> result (lambda_handler (sample_world (Some hook) (\<lambda>req. Inr 200)) issue_event ()) =
      Inr \<lparr>statusCode = 200,
            body = ''{"message": "success", "issueUrl": "https://github.com/org/repo/issues/5", "connectedToSlack": true}''\<rparr>\<close>
  by (simp add: handler_result notify_escapes send_escapes sample_defs resolve_body_def
      parse_payload_def extract_issue_url_def dict_get_def response_body_def)

text \<open>
  C5, as amended. The claim reads: for every raw body that is not valid JSON the
  payload is \<^verbatim>\<open>{"raw": body}\<close> and the handler returns status code 200 with the issue URL
  \<^verbatim>\<open>None\<close>. The fallback is taken when \<^verbatim>\<open>json.loads\<close> raises, and \<^verbatim>\<open>json.loads\<close> accepts
  texts that are not JSON: the constants \<^verbatim>\<open>NaN\<close>, \<^verbatim>\<open>Infinity\<close> and \<^verbatim>\<open>-Infinity\<close>. Such a
  body is parsed like any other, and an issue URL \<^verbatim>\<open>NaN\<close> is posted and returned. What
  holds: whenever \<^verbatim>\<open>json.loads\<close> raises on the resolved body, the payload is the dict
  \<^verbatim>\<open>{"raw": body}\<close>, nothing is sent, and the handler returns status code 200 with the
  issue URL \<^verbatim>\<open>None\<close> in the body: the failure of the parse never reaches the caller.
\<close>

theorem C5_invalid_json_falls_back:
  assumes "json_loads w (resolve_body event) = Inl e"
  shows "parse_payload w (resolve_body event) = PDict [(''raw'', resolve_body event)]
       \<and> posts (lambda_handler w event ctx) = []
       \<and> result (lambda_handler w event ctx) =
           Inr \<lparr>statusCode = 200,
                 body = json_dumps w
                   (PDict [(''message'', PStr ''success''),
                           (''issueUrl'', PNone),
                           (''connectedToSlack'', PBool (env_truthy (environ w ''SLACK_URL'')))])\<rparr>"
proof -
  have P: "parse_payload w (resolve_body event) = PDict [(''raw'', resolve_body event)]"
    by (rule parse_payload_fallback [OF assms])
  have E: "extract_issue_url (parse_payload w (resolve_body event)) = Inr PNone"
    by (simp add: P extract_dict)
  have N: "notify w PNone (environ w ''SLACK_URL'') = ([NoIssueUrl], [], None)"
    by (simp add: notify_falsy)
  from P handler_returns(2) [OF E N, of ctx] handler_returns(1) [OF E N, of ctx]
  show ?thesis
    by (simp add: response_body_def)
qed

theorem C5_invalid_json_falls_back_witness:
  \<open>json_loads (sample_world (Some hook) (\<lambda>req. Inr 200))
      (resolve_body (PDict [(''body'', PStr ''not json'')])) = Inl JSONDecodeError
   \<and> parse_payload (sample_world (Some hook) (\<lambda>req. Inr 200))
      (resolve_body (PDict [(''body'', PStr ''not json'')])) = PDict [(''raw'', PStr ''not json'')]
   \<and> posts (lambda_handler (sample_world (Some hook) (\<lambda>req. Inr 200))
        (PDict [(''body'', PStr ''not json'')]) ()) = []
   \<and> result (lambda_handler (sample_world (Some hook) (\<lambda>req. Inr 200))
        (PDict [(''body'', PStr ''not json'')]) ()) =
      Inr \<lparr>statusCode = 200,
            body = ''{"message": "success", "issueUrl": null, "connectedToSlack": true}''\<rparr>\<close>
proof -
  let ?w = "sample_world (Some hook) (\<lambda>req. Inr 200)"
  let ?ev = "PDict [(''body'', PStr ''not json'')]"
  have h: "json_loads ?w (resolve_body ?ev) = Inl JSONDecodeError"
    by (simp add: sample_defs resolve_body_def)
  have b: "resolve_body ?ev = PStr ''not json''"
    by (simp add: resolve_body_def)
  from h C5_invalid_json_falls_back [OF h, of "()"] show ?thesis
    by (simp add: b sample_world_def json_dumps_sample_def hook_def)
qed

theorem C5_counterexample:
  \<open>json_loads (sample_world (Some hook) (\<lambda>req. Inr 200))
      (resolve_body (PDict [(''body'', PStr ''{"issue": {"html_url": NaN}}'')])) =
      Inr (PDict [(''issue'', PDict [(''html_url'', PFloat 0x7FF8000000000000)])])
   \<and> posts (lambda_handler (sample_world (Some hook) (\<lambda>req. Inr 200))
        (PDict [(''body'', PStr ''{"issue": {"html_url": NaN}}'')]) ()) =
      [\<lparr>full_url = ''https://hooks.slack.com/services/T0/B0/x'',
        data = ''{"text": ":tada: New GitHub Issue created: nan"}'',
        headers = [(''Content-Type'', ''application/json'')]\<rparr>]
   \<and> result (lambda_handler (sample_world (Some hook) (\<lambda>req. Inr 200))
        (PDict [(''body'', PStr ''{"issue": {"html_url": NaN}}'')]) ()) =
      Inr \<lparr>statusCode = 200,
            body = ''{"message": "success", "issueUrl": NaN, "connectedToSlack": true}''\<rparr>
   \<and> json_loads (sample_world (Some hook) (\<lambda>req. Inr 200))
      (resolve_body (PDict [(''body'', PStr ''NaN'')])) = Inr (PFloat 0x7FF8000000000000)
   \<and> result (lambda_handler (sample_world (Some hook) (\<lambda>req. Inr 200))
        (PDict [(''body'', PStr ''NaN'')]) ()) = Inl TypeError\<close>
  by (simp add: lambda_handler_def notify_def send_to_slack_def build_request_def
      message_text_def response_body_def sample_defs resolve_body_def parse_payload_def
      extract_issue_url_def dict_get_def)

text \<open>
  C6. The claim reads: when \<^verbatim>\<open>SLACK_URL\<close> is absent or empty, every event is answered
  with status code 200, nothing is sent and \<^verbatim>\<open>connectedToSlack\<close> is false. Nothing is
  sent indeed, but an event whose body parses to a number, a bool or \<^verbatim>\<open>None\<close> is not
  answered: the membership test on the payload raises \<^verbatim>\<open>TypeError\<close>, as in C3.
\<close>

theorem C6_unconfigured_still_raises:
  \<open>environ (sample_world None (\<lambda>req. Inr 200)) ''SLACK_URL'' = None
   \<and> posts (lambda_handler (sample_world None (\<lambda>req. Inr 200))
        (PDict [(''body'', PStr ''null'')]) ()) = []
   \<and> result (lambda_handler (sample_world None (\<lambda>req. Inr 200))
        (PDict [(''body'', PStr ''null'')]) ()) = Inl TypeError
   \<and> result (lambda_handler (sample_world (Some []) (\<lambda>req. Inr 200))
        (PDict [(''body'', PStr ''5'')]) ()) = Inl TypeError\<close>
  by (simp add: lambda_handler_def sample_defs resolve_body_def parse_payload_def
      extract_issue_url_def)

text \<open>
  C7. When the event is a dict with the key \<^verbatim>\<open>"body"\<close>, the value of that key is the raw
  body; when it is a dict without that key, or not a dict, the event itself is. The raw
  body is what the handler passes to \<^verbatim>\<open>json.loads\<close>, and the response is computed from
  what that call gives: when it returns a dict the \<^verbatim>\<open>issueUrl\<close> of the response is the
  \<^verbatim>\<open>"html_url"\<close> of its \<^verbatim>\<open>"issue"\<close> dict (provided a notification, if one is sent, ends in a
  way the handler continues from), and when it raises the \<^verbatim>\<open>issueUrl\<close> is \<^verbatim>\<open>None\<close>. Nothing
  else of the event is read: two events with the same raw body give the same outcome
  (lines printed, requests sent, result).
\<close>

theorem C7_only_the_body_is_read:
  "(map_of d ''body'' = Some b \<longrightarrow> resolve_body (PDict d) = b)
   \<and> (map_of d' ''body'' = None \<longrightarrow> resolve_body (PDict d') = PDict d')
   \<and> (\<not> is_dict event \<longrightarrow> resolve_body event = event)
   \<and> (resolve_body e1 = resolve_body e2 \<longrightarrow> lambda_handler w e1 ctx = lambda_handler w e2 ctx)
   \<and> (map_of d1 ''body'' = Some b1 \<and> json_loads w1 b1 = Inr (PDict p1)
        \<and> (\<forall>D. environ w1 ''SLACK_URL'' = Some D \<longrightarrow> Request_raises w1 D = None)
        \<and> (\<forall>req. handled (urlopen w1 req)) \<longrightarrow>
        result (lambda_handler w1 (PDict d1) ctx) =
          Inr \<lparr>statusCode = 200,
                body = json_dumps w1
                  (PDict [(''message'', PStr ''success''),
                          (''issueUrl'',
                             case map_of p1 ''issue'' of
                               Some (PDict i) \<Rightarrow>
                                 (case map_of i ''html_url'' of Some u \<Rightarrow> u | None \<Rightarrow> PNone)
                             | _ \<Rightarrow> PNone),
                          (''connectedToSlack'', PBool (env_truthy (environ w1 ''SLACK_URL'')))])\<rparr>)
   \<and> (map_of d2 ''body'' = Some b2 \<and> json_loads w2 b2 = Inl x2 \<longrightarrow>
        result (lambda_handler w2 (PDict d2) ctx) =
          Inr \<lparr>statusCode = 200,
                body = json_dumps w2
                  (PDict [(''message'', PStr ''success''),
                          (''issueUrl'', PNone),
                          (''connectedToSlack'', PBool (env_truthy (environ w2 ''SLACK_URL'')))])\<rparr>)
   \<and> ((\<not> is_dict ev3 \<or> (\<exists>dd. ev3 = PDict dd \<and> map_of dd ''body'' = None))
        \<and> json_loads w3 ev3 = Inr (PDict p3)
        \<and> (\<forall>D. environ w3 ''SLACK_URL'' = Some D \<longrightarrow> Request_raises w3 D = None)
        \<and> (\<forall>req. handled (urlopen w3 req)) \<longrightarrow>
        result (lambda_handler w3 ev3 ctx) =
          Inr \<lparr>statusCode = 200,
                body = json_dumps w3
                  (PDict [(''message'', PStr ''success''),
                          (''issueUrl'',
                             case map_of p3 ''issue'' of
                               Some (PDict i) \<Rightarrow>
                                 (case map_of i ''html_url'' of Some u \<Rightarrow> u | None \<Rightarrow> PNone)
                             | _ \<Rightarrow> PNone),
                          (''connectedToSlack'', PBool (env_truthy (environ w3 ''SLACK_URL'')))])\<rparr>)
   \<and> ((\<not> is_dict ev4 \<or> (\<exists>dd. ev4 = PDict dd \<and> map_of dd ''body'' = None))
        \<and> json_loads w4 ev4 = Inl x4 \<longrightarrow>
        result (lambda_handler w4 ev4 ctx) =
          Inr \<lparr>statusCode = 200,
                body = json_dumps w4
                  (PDict [(''message'', PStr ''success''),
                          (''issueUrl'', PNone),
                          (''connectedToSlack'', PBool (env_truthy (environ w4 ''SLACK_URL'')))])\<rparr>)"
proof (intro conjI impI)
  show "resolve_body event = event" if "\<not> is_dict event"
    using that by (cases event) (simp_all add: resolve_body_def)
  show "lambda_handler w e1 ctx = lambda_handler w e2 ctx" if "resolve_body e1 = resolve_body e2"
    using that by (simp add: lambda_handler_def)
  show "resolve_body (PDict d) = b" if "map_of d ''body'' = Some b"
    using that by (rule resolve_body_with_key)
  show "resolve_body (PDict d') = PDict d'" if "map_of d' ''body'' = None"
    using that by (simp add: resolve_body_def)
next
  assume A: "map_of d1 ''body'' = Some b1 \<and> json_loads w1 b1 = Inr (PDict p1)
        \<and> (\<forall>D. environ w1 ''SLACK_URL'' = Some D \<longrightarrow> Request_raises w1 D = None)
        \<and> (\<forall>req. handled (urlopen w1 req))"
  then have B: "resolve_body (PDict d1) = b1"
    by (simp add: resolve_body_with_key)
  with A have P: "parse_payload w1 (resolve_body (PDict d1)) = PDict p1"
    by (simp add: parse_payload_ok)
  from A have R: "\<forall>D. environ w1 ''SLACK_URL'' = Some D \<longrightarrow> Request_raises w1 D = None"
    and H: "\<forall>req. handled (urlopen w1 req)"
    by simp_all
  show "result (lambda_handler w1 (PDict d1) ctx) =
          Inr \<lparr>statusCode = 200,
                body = json_dumps w1
                  (PDict [(''message'', PStr ''success''),
                          (''issueUrl'',
                             case map_of p1 ''issue'' of
                               Some (PDict i) \<Rightarrow>
                                 (case map_of i ''html_url'' of Some u \<Rightarrow> u | None \<Rightarrow> PNone)
                             | _ \<Rightarrow> PNone),
                          (''connectedToSlack'', PBool (env_truthy (environ w1 ''SLACK_URL'')))])\<rparr>"
    by (rule handler_on_dict_payload [OF P R H])
next
  assume A: "map_of d2 ''body'' = Some b2 \<and> json_loads w2 b2 = Inl x2"
  then have L: "json_loads w2 (resolve_body (PDict d2)) = Inl x2"
    by (simp add: resolve_body_with_key)
  show "result (lambda_handler w2 (PDict d2) ctx) =
          Inr \<lparr>statusCode = 200,
                body = json_dumps w2
                  (PDict [(''message'', PStr ''success''),
                          (''issueUrl'', PNone),
                          (''connectedToSlack'', PBool (env_truthy (environ w2 ''SLACK_URL'')))])\<rparr>"
    by (rule handler_on_fallback [OF L])
next
  assume A: "(\<not> is_dict ev3 \<or> (\<exists>dd. ev3 = PDict dd \<and> map_of dd ''body'' = None))
        \<and> json_loads w3 ev3 = Inr (PDict p3)
        \<and> (\<forall>D. environ w3 ''SLACK_URL'' = Some D \<longrightarrow> Request_raises w3 D = None)
        \<and> (\<forall>req. handled (urlopen w3 req))"
  then have B: "resolve_body ev3 = ev3"
    by (simp add: resolve_body_otherwise)
  with A have P: "parse_payload w3 (resolve_body ev3) = PDict p3"
    by (simp add: parse_payload_ok)
  from A have R: "\<forall>D. environ w3 ''SLACK_URL'' = Some D \<longrightarrow> Request_raises w3 D = None"
    and H: "\<forall>req. handled (urlopen w3 req)"
    by simp_all
  show "result (lambda_handler w3 ev3 ctx) =
          Inr \<lparr>statusCode = 200,
                body = json_dumps w3
                  (PDict [(''message'', PStr ''success''),
                          (''issueUrl'',
                             case map_of p3 ''issue'' of
                               Some (PDict i) \<Rightarrow>
                                 (case map_of i ''html_url'' of Some u \<Rightarrow> u | None \<Rightarrow> PNone)
                             | _ \<Rightarrow> PNone),
                          (''connectedToSlack'', PBool (env_truthy (environ w3 ''SLACK_URL'')))])\<rparr>"
    by (rule handler_on_dict_payload [OF P R H])
next
  assume A: "(\<not> is_dict ev4 \<or> (\<exists>dd. ev4 = PDict dd \<and> map_of dd ''body'' = None))
        \<and> json_loads w4 ev4 = Inl x4"
  then have "resolve_body ev4 = ev4"
    by (simp add: resolve_body_otherwise)
  with A have L: "json_loads w4 (resolve_body ev4) = Inl x4"
    by simp
  show "result (lambda_handler w4 ev4 ctx) =
          Inr \<lparr>statusCode = 200,
                body = json_dumps w4
                  (PDict [(''message'', PStr ''success''),
                          (''issueUrl'', PNone),
                          (''connectedToSlack'', PBool (env_truthy (environ w4 ''SLACK_URL'')))])\<rparr>"
    by (rule handler_on_fallback [OF L])
qed

theorem C7_only_the_body_is_read_witness:
  \<open>resolve_body issue_event =
      PStr ''{"issue": {"html_url": "https://github.com/org/repo/issues/5"}}''
   \<and> resolve_body (PDict [(''zen'', PStr ''Keep it simple.'')]) =
      PDict [(''zen'', PStr ''Keep it simple.'')]
   \<and> resolve_body (PStr ''not json'') = PStr ''not json''
   \<and> lambda_handler (sample_world (Some hook) (\<lambda>req. Inr 200)) issue_event () =
      lambda_handler (sample_world (Some hook) (\<lambda>req. Inr 200))
        (PDict [(''body'', PStr ''{"issue": {"html_url": "https://github.com/org/repo/issues/5"}}''),
                (''isBase64Encoded'', PBool False)]) ()
   \<and> result (lambda_handler (sample_world (Some hook) (\<lambda>req. Inr 200)) issue_event ()) =
      Inr \<lparr>statusCode = 200,
            body = ''{"message": "success", "issueUrl": "https://github.com/org/repo/issues/5", "connectedToSlack": true}''\<rparr>
   \<and> result (lambda_handler (sample_world (Some hook) (\<lambda>req. Inr 200))
        (PDict [(''body'', PStr ''not json'')]) ()) =
      Inr \<lparr>statusCode = 200,
            body = ''{"message": "success", "issueUrl": null, "connectedToSlack": true}''\<rparr>
   \<and> result (lambda_handler (sample_world (Some hook) (\<lambda>req. Inr 200))
        (PStr ''{"issue": {"html_url": "https://github.com/org/repo/issues/5"}}'') ()) =
      Inr \<lparr>statusCode = 200,
            body = ''{"message": "success", "issueUrl": "https://github.com/org/repo/issues/5", "connectedToSlack": true}''\<rparr>
   \<and> result (lambda_handler (sample_world (Some hook) (\<lambda>req. Inr 200))
        (PDict [(''zen'', PStr ''Keep it simple.'')]) ()) =
      Inr \<lparr>statusCode = 200,
            body = ''{"message": "success", "issueUrl": null, "connectedToSlack": true}''\<rparr>\<close>
proof -
  let ?w = "sample_world (Some hook) (\<lambda>req. Inr 200)"
  let ?U = "''https://github.com/org/repo/issues/5''"
  let ?b = "PStr ''{\"issue\": {\"html_url\": \"https://github.com/org/repo/issues/5\"}}''"
  let ?p = "[(''issue'', PDict [(''html_url'', PStr ?U)])]"
  let ?d = "[(''headers'', PDict [(''X-GitHub-Event'', PStr ''issues'')]), (''body'', ?b)]"
  let ?d' = "[(''zen'', PStr ''Keep it simple.'')]"
  let ?d2 = "[(''body'', PStr ''not json'')]"
  let ?e2 = "PDict [(''body'', ?b), (''isBase64Encoded'', PBool False)]"
  have h1: "map_of ?d ''body'' = Some ?b"
    by simp
  have h2: "map_of ?d' ''body'' = None"
    by simp
  have h3: "\<not> is_dict (PStr ''not json'')"
    by simp
  have h4: "resolve_body (PDict ?d) = resolve_body ?e2"
    by (simp add: resolve_body_def)
  have R: "\<forall>D. environ ?w ''SLACK_URL'' = Some D \<longrightarrow> Request_raises ?w D = None"
    by (simp add: sample_defs)
  have H: "\<forall>req. handled (urlopen ?w req)"
    by (simp add: sample_world_def)
  have h5: "map_of ?d ''body'' = Some ?b \<and> json_loads ?w ?b = Inr (PDict ?p)
        \<and> (\<forall>D. environ ?w ''SLACK_URL'' = Some D \<longrightarrow> Request_raises ?w D = None)
        \<and> (\<forall>req. handled (urlopen ?w req))"
    using R H by (simp add: sample_world_def json_loads_sample_def json_loads_table_def)
  have h6: "map_of ?d2 ''body'' = Some (PStr ''not json'')
        \<and> json_loads ?w (PStr ''not json'') = Inl JSONDecodeError"
    by (simp add: sample_world_def json_loads_sample_def json_loads_table_def)
  have h7: "(\<not> is_dict ?b \<or> (\<exists>dd. ?b = PDict dd \<and> map_of dd ''body'' = None))
        \<and> json_loads ?w ?b = Inr (PDict ?p)
        \<and> (\<forall>D. environ ?w ''SLACK_URL'' = Some D \<longrightarrow> Request_raises ?w D = None)
        \<and> (\<forall>req. handled (urlopen ?w req))"
    using R H by (simp add: sample_world_def json_loads_sample_def json_loads_table_def)
  have h8: "(\<not> is_dict (PDict ?d') \<or> (\<exists>dd. PDict ?d' = PDict dd \<and> map_of dd ''body'' = None))
        \<and> json_loads ?w (PDict ?d') = Inl TypeError"
    by (simp add: sample_world_def json_loads_sample_def)
  note T = C7_only_the_body_is_read [where d = ?d and b = ?b and d' = ?d'
      and event = "PStr ''not json''" and ?e1.0 = "PDict ?d" and ?e2.0 = ?e2 and w = ?w
      and ctx = "()" and ?d1.0 = ?d and ?b1.0 = ?b and ?w1.0 = ?w and ?p1.0 = ?p
      and ?d2.0 = ?d2 and ?b2.0 = "PStr ''not json''" and ?w2.0 = ?w and ?x2.0 = JSONDecodeError
      and ?ev3.0 = ?b and ?w3.0 = ?w and ?p3.0 = ?p
      and ?ev4.0 = "PDict ?d'" and ?w4.0 = ?w and ?x4.0 = TypeError]
  note T2 = T [THEN conjunct2]
  note T3 = T2 [THEN conjunct2]
  note T4 = T3 [THEN conjunct2]
  note T5 = T4 [THEN conjunct2]
  note T6 = T5 [THEN conjunct2]
  note T7 = T6 [THEN conjunct2]
  note T8 = T7 [THEN conjunct2]
  note c1 = T [THEN conjunct1, THEN mp, OF h1]
  note c2 = T2 [THEN conjunct1, THEN mp, OF h2]
  note c3 = T3 [THEN conjunct1, THEN mp, OF h3]
  note c4 = T4 [THEN conjunct1, THEN mp, OF h4]
  note c5 = T5 [THEN conjunct1, THEN mp, OF h5]
  note c6 = T6 [THEN conjunct1, THEN mp, OF h6]
  note c7 = T7 [THEN conjunct1, THEN mp, OF h7]
  note c8 = T8 [THEN mp, OF h8]
  from c1 c2 c3 c4 c5 c6 c7 c8 show ?thesis
    by (simp add: issue_event_def sample_world_def json_dumps_sample_def hook_def)
qed

text \<open>
  C8. The returned value is a function of the event, the configuration and the library;
  of the network it depends only on whether sending ends in something the handler
  continues from. Two invocations on the same event and configuration return the same
  response (or raise the same exception) when, for each request, the network either
  behaves the same in both or ends in a response, an \<^verbatim>\<open>HTTPError\<close> or a \<^verbatim>\<open>URLError\<close> in both:
  in particular when the destination is unreachable both times. And however the network
  behaves, two invocations that both return a response return the same one.
\<close>

theorem C8_same_input_same_response:
  "((\<forall>req. urlopen w req = net req \<or> (handled (urlopen w req) \<and> handled (net req))) \<longrightarrow>
      result (lambda_handler (w\<lparr>urlopen := net\<rparr>) event ctx') = result (lambda_handler w event ctx))
   \<and> (result (lambda_handler w event ctx) = Inr r
        \<and> result (lambda_handler (w\<lparr>urlopen := net\<rparr>) event ctx') = Inr r' \<longrightarrow> r' = r)"
proof (intro conjI impI)
  assume A: "\<forall>req. urlopen w req = net req \<or> (handled (urlopen w req) \<and> handled (net req))"
  have S: "snd (snd (send_to_slack (w\<lparr>urlopen := net\<rparr>) iu D)) = snd (snd (send_to_slack w iu D))"
    for iu D
    using A by (intro send_escapes_same) simp
  have "snd (snd (notify (w\<lparr>urlopen := net\<rparr>) iu slack)) = snd (snd (notify w iu slack))"
    for iu slack
    by (cases slack) (simp_all add: notify_escapes S)
  then show "result (lambda_handler (w\<lparr>urlopen := net\<rparr>) event ctx') = result (lambda_handler w event ctx)"
    by (cases "extract_issue_url (parse_payload w (resolve_body event))")
      (simp_all add: handler_result split: option.splits)
next
  assume B: "result (lambda_handler w event ctx) = Inr r
             \<and> result (lambda_handler (w\<lparr>urlopen := net\<rparr>) event ctx') = Inr r'"
  from B handler_response [of w event ctx r] obtain iu where
    E: "extract_issue_url (parse_payload w (resolve_body event)) = Inr iu"
    and r: "r = \<lparr>statusCode = 200,
                 body = json_dumps w (response_body iu (environ w ''SLACK_URL''))\<rparr>"
    by blast
  from B handler_response [of "w\<lparr>urlopen := net\<rparr>" event ctx' r'] obtain iu' where
    E': "extract_issue_url (parse_payload w (resolve_body event)) = Inr iu'"
    and r': "r' = \<lparr>statusCode = 200,
                   body = json_dumps w (response_body iu' (environ w ''SLACK_URL''))\<rparr>"
    by auto
  from E E' have "iu' = iu"
    by simp
  with r r' show "r' = r"
    by simp
qed

theorem C8_same_input_same_response_witness:
  \<open>result (lambda_handler (sample_world (Some hook) (\<lambda>req. Inl (URLError ''timed out''))) issue_event ()) =
      result (lambda_handler (sample_world (Some hook) (\<lambda>req. Inl (URLError ''[Errno 111] Connection refused'')))
                issue_event ())
   \<and> result (lambda_handler (sample_world (Some hook) (\<lambda>req. Inl (URLError ''[Errno 111] Connection refused'')))
                issue_event ()) =
      Inr \<lparr>statusCode = 200,
            body = ''{"message": "success", "issueUrl": "https://github.com/org/repo/issues/5", "connectedToSlack": true}''\<rparr>\<close>
proof -
  let ?w = "sample_world (Some hook) (\<lambda>req. Inl (URLError ''[Errno 111] Connection refused''))"
  let ?net = "\<lambda>req :: request. Inl (URLError ''timed out'') :: exn + int"
  have h: "\<forall>req. urlopen ?w req = ?net req \<or> (handled (urlopen ?w req) \<and> handled (?net req))"
    by (simp add: sample_world_def)
  have w': "?w\<lparr>urlopen := ?net\<rparr> = sample_world (Some hook) ?net"
    by (simp add: sample_world_def)
  have r: "result (lambda_handler ?w issue_event ()) =
      Inr \<lparr>statusCode = 200,
            body = ''{\"message\": \"success\", \"issueUrl\": \"https://github.com/org/repo/issues/5\", \"connectedToSlack\": true}''\<rparr>"
    by (simp add: handler_result notify_escapes send_escapes sample_defs resolve_body_def
        parse_payload_def extract_issue_url_def dict_get_def response_body_def)
  from C8_same_input_same_response [of ?w ?net issue_event "()" "()"] h
  have "result (lambda_handler (?w\<lparr>urlopen := ?net\<rparr>) issue_event ()) =
      result (lambda_handler ?w issue_event ())"
    by simp
  with w' r show ?thesis
    by simp
qed

text \<open>
  C9. The notification is gated by the truth value of the issue URL, not by its
  presence: when the \<^verbatim>\<open>"html_url"\<close> of the issue dict is the empty string, nothing is sent,
  whatever \<^verbatim>\<open>SLACK_URL\<close> is, and the \<^verbatim>\<open>issueUrl\<close> of the response is the empty string, not
  \<^verbatim>\<open>None\<close>.
\<close>

theorem C9_empty_issue_url:
  assumes "json_loads w (resolve_body event) = Inr (PDict p)"
    and "map_of p ''issue'' = Some (PDict i)"
    and "map_of i ''html_url'' = Some (PStr [])"
  shows "posts (lambda_handler w event ctx) = []
       \<and> result (lambda_handler w event ctx) =
           Inr \<lparr>statusCode = 200,
                 body = json_dumps w
                   (PDict [(''message'', PStr ''success''),
                           (''issueUrl'', PStr []),
                           (''connectedToSlack'', PBool (env_truthy (environ w ''SLACK_URL'')))])\<rparr>"
proof -
  have E: "extract_issue_url (parse_payload w (resolve_body event)) = Inr (PStr [])"
    using assms by (simp add: parse_payload_ok extract_dict dict_get_def)
  have N: "notify w (PStr []) (environ w ''SLACK_URL'') = ([NoIssueUrl], [], None)"
    by (simp add: notify_falsy)
  from handler_returns(2) [OF E N, of ctx] handler_returns(1) [OF E N, of ctx]
  show ?thesis
    by (simp add: response_body_def)
qed

theorem C9_empty_issue_url_witness:
  \<open>environ (sample_world (Some hook) (\<lambda>req. Inr 200)) ''SLACK_URL'' =
      Some ''https://hooks.slack.com/services/T0/B0/x''
   \<and> posts (lambda_handler (sample_world (Some hook) (\<lambda>req. Inr 200))
        (PDict [(''body'', PStr ''{"issue": {"html_url": ""}}'')]) ()) = []
   \<and> result (lambda_handler (sample_world (Some hook) (\<lambda>req. Inr 200))
        (PDict [(''body'', PStr ''{"issue": {"html_url": ""}}'')]) ()) =
      Inr \<lparr>statusCode = 200,
            body = ''{"message": "success", "issueUrl": "", "connectedToSlack": true}''\<rparr>\<close>
proof -
  let ?w = "sample_world (Some hook) (\<lambda>req. Inr 200)"
  let ?ev = "PDict [(''body'', PStr ''{\"issue\": {\"html_url\": \"\"}}'')]"
  let ?i = "[(''html_url'', PStr [])]"
  let ?p = "[(''issue'', PDict ?i)]"
  have h1: "json_loads ?w (resolve_body ?ev) = Inr (PDict ?p)"
    by (simp add: sample_defs resolve_body_def)
  have h2: "map_of ?p ''issue'' = Some (PDict ?i)"
    by simp
  have h3: "map_of ?i ''html_url'' = Some (PStr [])"
    by simp
  from C9_empty_issue_url [OF h1 h2 h3, of "()"] show ?thesis
    by (simp add: sample_world_def json_dumps_sample_def hook_def)
qed

text \<open>
  C10. Whenever the handler returns, the \<^verbatim>\<open>connectedToSlack\<close> of the body is
  \<^verbatim>\<open>bool(slack_url)\<close>: true exactly when \<^verbatim>\<open>SLACK_URL\<close> is set to a non-empty string. It
  does not depend on whether anything was sent or on how sending ended; it is true also
  when the payload has no issue URL and nothing is sent.
\<close>

theorem C10_connected_reflects_configuration:
  assumes "result (lambda_handler w event ctx) = Inr r"
  shows "\<exists>iu. body r = json_dumps w
           (PDict [(''message'', PStr ''success''),
                   (''issueUrl'', iu),
                   (''connectedToSlack'',
                      PBool (\<exists>D. environ w ''SLACK_URL'' = Some D \<and> D \<noteq> []))])"
proof -
  from handler_response [OF assms] obtain iu where
    r: "r = \<lparr>statusCode = 200,
             body = json_dumps w (response_body iu (environ w ''SLACK_URL''))\<rparr>"
    by blast
  have "env_truthy (environ w ''SLACK_URL'') = (\<exists>D. environ w ''SLACK_URL'' = Some D \<and> D \<noteq> [])"
    by (cases "environ w ''SLACK_URL''") simp_all
  with r have "body r = json_dumps w
           (PDict [(''message'', PStr ''success''),
                   (''issueUrl'', iu),
                   (''connectedToSlack'',
                      PBool (\<exists>D. environ w ''SLACK_URL'' = Some D \<and> D \<noteq> []))])"
    by (simp add: response_body_def)
  then show ?thesis
    by (rule exI [where x = iu])
qed

theorem C10_connected_reflects_configuration_witness:
  \<open>posts (lambda_handler (sample_world (Some hook) (\<lambda>req. Inl (OtherError ''RemoteDisconnected'')))
      (PDict [(''body'', PStr ''{"zen": "Keep it simple."}'')]) ()) = []
   \<and> result (lambda_handler (sample_world (Some hook) (\<lambda>req. Inl (OtherError ''RemoteDisconnected'')))
      (PDict [(''body'', PStr ''{"zen": "Keep it simple."}'')]) ()) =
      Inr \<lparr>statusCode = 200,
            body = ''{"message": "success", "issueUrl": null, "connectedToSlack": true}''\<rparr>
   \<and> (\<exists>iu. ''{"message": "success", "issueUrl": null, "connectedToSlack": true}'' =
          json_dumps_sample
            (PDict [(''message'', PStr ''success''), (''issueUrl'', iu),
                    (''connectedToSlack'', PBool True)]))\<close>
proof -
  let ?w = "sample_world (Some hook) (\<lambda>req. Inl (OtherError ''RemoteDisconnected''))"
  let ?ev = "PDict [(''body'', PStr ''{\"zen\": \"Keep it simple.\"}'')]"
  let ?r = "\<lparr>statusCode = 200,
             body = ''{\"message\": \"success\", \"issueUrl\": null, \"connectedToSlack\": true}''\<rparr>"
  have p: "posts (lambda_handler ?w ?ev ()) = []"
    by (simp add: handler_posts notify_def sample_defs resolve_body_def parse_payload_def
        extract_issue_url_def)
  have h: "result (lambda_handler ?w ?ev ()) = Inr ?r"
    by (simp add: handler_result notify_escapes sample_defs resolve_body_def parse_payload_def
        extract_issue_url_def response_body_def)
  have c: "(\<exists>D. environ ?w ''SLACK_URL'' = Some D \<and> D \<noteq> []) = True"
    by (simp add: sample_defs)
  from C10_connected_reflects_configuration [OF h] have
    "\<exists>iu. body ?r = json_dumps ?w
           (PDict [(''message'', PStr ''success''), (''issueUrl'', iu),
                   (''connectedToSlack'',
                      PBool (\<exists>D. environ ?w ''SLACK_URL'' = Some D \<and> D \<noteq> []))])" .
  then have "\<exists>iu. ''{\"message\": \"success\", \"issueUrl\": null, \"connectedToSlack\": true}'' =
          json_dumps_sample
            (PDict [(''message'', PStr ''success''), (''issueUrl'', iu),
                    (''connectedToSlack'', PBool True)])"
    unfolding c by (simp add: sample_world_def)
  with p h show ?thesis
    by simp
qed

section \<open>Further properties\<close>

text \<open>
  When \<^verbatim>\<open>SLACK_URL\<close> is absent or empty nothing is sent, whatever the event and whatever
  the library does, and every response the handler returns has \<^verbatim>\<open>connectedToSlack\<close> false.
\<close>

theorem unconfigured_sends_nothing:
  assumes "environ w ''SLACK_URL'' = None \<or> environ w ''SLACK_URL'' = Some []"
  shows "posts (lambda_handler w event ctx) = []
       \<and> (\<forall>r. result (lambda_handler w event ctx) = Inr r \<longrightarrow>
            (\<exists>iu. r = \<lparr>statusCode = 200,
                         body = json_dumps w
                           (PDict [(''message'', PStr ''success''),
                                   (''issueUrl'', iu),
                                   (''connectedToSlack'', PBool False)])\<rparr>))"
proof -
  from assms have F: "\<not> env_truthy (environ w ''SLACK_URL'')"
    by auto
  have "posts (lambda_handler w event ctx) = []"
    by (cases "extract_issue_url (parse_payload w (resolve_body event))")
      (simp_all add: handler_posts notify_no_slack [OF F])
  moreover have "\<exists>iu. r = \<lparr>statusCode = 200,
                         body = json_dumps w
                           (PDict [(''message'', PStr ''success''),
                                   (''issueUrl'', iu),
                                   (''connectedToSlack'', PBool False)])\<rparr>"
    if "result (lambda_handler w event ctx) = Inr r" for r
  proof -
    from handler_response [OF that] obtain iu where
      "r = \<lparr>statusCode = 200,
            body = json_dumps w (response_body iu (environ w ''SLACK_URL''))\<rparr>"
      by blast
    with F have "r = \<lparr>statusCode = 200,
                         body = json_dumps w
                           (PDict [(''message'', PStr ''success''),
                                   (''issueUrl'', iu),
                                   (''connectedToSlack'', PBool False)])\<rparr>"
      by (simp add: response_body_def)
    then show ?thesis
      by (rule exI [where x = iu])
  qed
  ultimately show ?thesis
    by blast
qed

theorem unconfigured_sends_nothing_witness:
  \<open>posts (lambda_handler (sample_world None (\<lambda>req. Inr 200)) issue_event ()) = []
   \<and> result (lambda_handler (sample_world None (\<lambda>req. Inr 200)) issue_event ()) =
      Inr \<lparr>statusCode = 200,
            body = ''{"message": "success", "issueUrl": "https://github.com/org/repo/issues/5", "connectedToSlack": false}''\<rparr>
   \<and> (\<exists>iu. ''{"message": "success", "issueUrl": "https://github.com/org/repo/issues/5", "connectedToSlack": false}'' =
          json_dumps_sample
            (PDict [(''message'', PStr ''success''), (''issueUrl'', iu),
                    (''connectedToSlack'', PBool False)]))\<close>
proof -
  let ?w = "sample_world None (\<lambda>req. Inr 200)"
  let ?r = "\<lparr>statusCode = 200,
             body = ''{\"message\": \"success\", \"issueUrl\": \"https://github.com/org/repo/issues/5\", \"connectedToSlack\": false}''\<rparr>"
  have h: "environ ?w ''SLACK_URL'' = None \<or> environ ?w ''SLACK_URL'' = Some []"
    by (simp add: sample_world_def)
  have r: "result (lambda_handler ?w issue_event ()) = Inr ?r"
    by (simp add: handler_result notify_escapes sample_defs resolve_body_def parse_payload_def
        extract_issue_url_def dict_get_def response_body_def)
  from unconfigured_sends_nothing [OF h, of issue_event "()"] have
    p: "posts (lambda_handler ?w issue_event ()) = []"
    and a: "\<forall>r. result (lambda_handler ?w issue_event ()) = Inr r \<longrightarrow>
            (\<exists>iu. r = \<lparr>statusCode = 200,
                         body = json_dumps ?w
                           (PDict [(''message'', PStr ''success''),
                                   (''issueUrl'', iu),
                                   (''connectedToSlack'', PBool False)])\<rparr>)"
    by simp_all
  from a have "result (lambda_handler ?w issue_event ()) = Inr ?r \<longrightarrow>
      (\<exists>iu. ?r = \<lparr>statusCode = 200,
                         body = json_dumps ?w
                           (PDict [(''message'', PStr ''success''),
                                   (''issueUrl'', iu),
                                   (''connectedToSlack'', PBool False)])\<rparr>)"
    by (rule spec)
  from this r have "\<exists>iu. ?r = \<lparr>statusCode = 200,
                         body = json_dumps ?w
                           (PDict [(''message'', PStr ''success''),
                                   (''issueUrl'', iu),
                                   (''connectedToSlack'', PBool False)])\<rparr>"
    by (rule mp)
  then have "\<exists>iu. ''{\"message\": \"success\", \"issueUrl\": \"https://github.com/org/repo/issues/5\", \"connectedToSlack\": false}'' =
          json_dumps_sample
            (PDict [(''message'', PStr ''success''), (''issueUrl'', iu),
                    (''connectedToSlack'', PBool False)])"
    by (simp add: sample_world_def)
  with p r show ?thesis
    by simp
qed

text \<open>
  On a payload that is a dict the issue URL is extracted without an exception: it is
  the \<^verbatim>\<open>"html_url"\<close> of the \<^verbatim>\<open>"issue"\<close> value when that value is a dict (\<^verbatim>\<open>None\<close> when the key
  is missing), and \<^verbatim>\<open>None\<close> when there is no \<^verbatim>\<open>"issue"\<close> key or its value is not a dict.
\<close>

theorem mapping_payload_issue_url:
  "extract_issue_url (PDict p) =
     Inr (case map_of p ''issue'' of
            Some (PDict i) \<Rightarrow> (case map_of i ''html_url'' of Some u \<Rightarrow> u | None \<Rightarrow> PNone)
          | _ \<Rightarrow> PNone)"
  by (simp add: extract_issue_url_def dict_get_def split: option.splits pyval.splits)

text \<open>
  A payload that is a list without the element \<^verbatim>\<open>"issue"\<close>, or a string without the
  substring \<^verbatim>\<open>issue\<close>, gives the issue URL \<^verbatim>\<open>None\<close>: the membership test is false and the
  subscript is not evaluated.
\<close>

theorem list_or_string_payload_without_issue:
  "(PStr ''issue'' \<notin> set xs \<longrightarrow> extract_issue_url (PList xs) = Inr PNone)
   \<and> (\<not> str_contains s ''issue'' \<longrightarrow> extract_issue_url (PStr s) = Inr PNone)"
  by (simp add: extract_issue_url_def)

theorem list_or_string_payload_without_issue_witness:
  "extract_issue_url (PList [PInt 1, PStr ''zen'']) = Inr PNone
   \<and> extract_issue_url (PStr ''Keep it simple.'') = Inr PNone"
proof -
  have h1: "PStr ''issue'' \<notin> set [PInt 1, PStr ''zen'']"
    by simp
  have h2: "\<not> str_contains ''Keep it simple.'' ''issue''"
    by simp
  from list_or_string_payload_without_issue [of "[PInt 1, PStr ''zen'']" "''Keep it simple.''"]
    h1 h2
  show ?thesis
    by blast
qed

text \<open>At most one request is sent per invocation.\<close>

theorem at_most_one_post:
  "length (posts (lambda_handler w event ctx)) \<le> 1"
proof (cases "extract_issue_url (parse_payload w (resolve_body event))")
  case (Inl e)
  then show ?thesis
    by (simp add: handler_posts)
next
  case (Inr iu)
  have "length (fst (snd (notify w iu (environ w ''SLACK_URL'')))) \<le> 1"
    by (rule notify_posts_at_most_one)
  with Inr show ?thesis
    by (simp add: handler_posts)
qed

text \<open>Every response the handler returns has status code 200.\<close>

theorem status_code_is_200:
  assumes "result (lambda_handler w event ctx) = Inr r"
  shows "statusCode r = 200"
proof -
  from handler_response [OF assms] obtain iu where
    "r = \<lparr>statusCode = 200,
          body = json_dumps w (response_body iu (environ w ''SLACK_URL''))\<rparr>"
    by blast
  then show ?thesis
    by simp
qed

theorem status_code_is_200_witness:
  \<open>result (lambda_handler (sample_world (Some hook) (\<lambda>req. Inl (HTTPError 500 ''Server Error'')))
      issue_event ()) =
      Inr \<lparr>statusCode = 200,
            body = ''{"message": "success", "issueUrl": "https://github.com/org/repo/issues/5", "connectedToSlack": true}''\<rparr>
   \<and> statusCode
        \<lparr>statusCode = 200,
         body = ''{"message": "success", "issueUrl": "https://github.com/org/repo/issues/5", "connectedToSlack": true}''\<rparr> = 200\<close>
proof -
  let ?w = "sample_world (Some hook) (\<lambda>req. Inl (HTTPError 500 ''Server Error''))"
  have r: "result (lambda_handler ?w issue_event ()) =
      Inr \<lparr>statusCode = 200,
            body = ''{\"message\": \"success\", \"issueUrl\": \"https://github.com/org/repo/issues/5\", \"connectedToSlack\": true}''\<rparr>"
    by (simp add: handler_result notify_escapes send_escapes sample_defs resolve_body_def
        parse_payload_def extract_issue_url_def dict_get_def response_body_def)
  from r status_code_is_200 [OF r] show ?thesis
    by (intro conjI)
qed

end
